theory Spec2Isabelle
  imports Complex_Main "HOL-Library.AList" "HOL-Library.Word"
begin

unbundle bit_operations_syntax

section \<open>Python errors\<close>

text \<open>
  The exceptions the modelled functions of \<^verbatim>\<open>lsst/cp/pipe/utils.py\<close> can raise.
  A function that may raise returns \<open>py_error + 'a\<close>, with \<open>Inl\<close> the exception.
  \<open>LibraryError\<close> stands for whatever an external library call (numpy, scipy, afw)
  raises by itself.
\<close>

datatype py_error =
    AssertionError string
  | RuntimeError string
  | LibraryError string

section \<open>arrangeFlatsByExpId\<close>

text \<open>
  \<^verbatim>\<open>
  def arrangeFlatsByExpId(exposureList, exposureIdList):
      flatsAtExpId = {}
      assert len(exposureList) == len(exposureIdList), "Different lengths ..."
      sortedExposures = sorted(zip(exposureList, exposureIdList), key=lambda pair: pair[1])
      for jPair, expTuple in enumerate(sortedExposures):
          if (jPair + 1) % 2:
              kPair = jPair // 2
              listAtExpId = flatsAtExpId.setdefault(kPair, [])
              try:
                  listAtExpId.append(expTuple)
                  listAtExpId.append(sortedExposures[jPair + 1])
              except IndexError:
                  pass
      return flatsAtExpId
  \<close>
  The dictionary is an association list in insertion order (as a Python dict is);
  \<open>sorted\<close> with a key is the stable \<open>sort_key\<close>. The two \<open>append\<close> calls
  mutate the list stored in the dictionary, so each is an update of the entry; the
  second is skipped when \<open>sortedExposures[jPair + 1]\<close> raises IndexError, which the
  \<open>except\<close> clause swallows after the first append has already happened.
\<close>

type_synonym 'e flats_dict = "(nat \<times> ('e \<times> int) list) list"

definition dict_get :: "('k \<times> 'v list) list \<Rightarrow> 'k \<Rightarrow> 'v list" where
  "dict_get d k = (case map_of d k of None \<Rightarrow> [] | Some v \<Rightarrow> v)"

definition setdefault :: "('k \<times> 'v list) list \<Rightarrow> 'k \<Rightarrow> ('k \<times> 'v list) list" where
  "setdefault d k = (case map_of d k of None \<Rightarrow> d @ [(k, [])] | Some v \<Rightarrow> d)"

definition dict_append :: "('k \<times> 'v list) list \<Rightarrow> 'k \<Rightarrow> 'v \<Rightarrow> ('k \<times> 'v list) list" where
  "dict_append d k x = AList.update k (dict_get d k @ [x]) d"

definition arrange_body ::
  "('e \<times> int) list \<Rightarrow> nat \<times> ('e \<times> int) \<Rightarrow> 'e flats_dict \<Rightarrow> 'e flats_dict" where
  "arrange_body sortedExposures = (\<lambda>(jPair, expTuple) flatsAtExpId.
     if (jPair + 1) mod 2 \<noteq> 0 then
       let kPair = jPair div 2;
           d1 = setdefault flatsAtExpId kPair;
           d2 = dict_append d1 kPair expTuple
       in if jPair + 1 < length sortedExposures
          then dict_append d2 kPair (sortedExposures ! (jPair + 1))
          else d2
     else flatsAtExpId)"

definition arrangeFlatsByExpId :: "'e list \<Rightarrow> int list \<Rightarrow> py_error + 'e flats_dict" where
  "arrangeFlatsByExpId exposureList exposureIdList =
     (if length exposureList \<noteq> length exposureIdList
      then Inl (AssertionError ''Different lengths for exp. list and exp. ID lists'')
      else let sortedExposures = sort_key snd (zip exposureList exposureIdList)
           in Inr (fold (arrange_body sortedExposures) (enumerate 0 sortedExposures) []))"

text \<open>
  The dictionary that pairs the sorted exposures two by two: key \<open>k\<close> holds the
  exposures at positions \<open>2k\<close> and \<open>2k + 1\<close>, as far as they exist. The lemmas
  below show that this is what the loop builds.
\<close>

definition pairs_upto :: "('e \<times> int) list \<Rightarrow> nat \<Rightarrow> 'e flats_dict" where
  "pairs_upto s m = map (\<lambda>k. (k, take 2 (drop (2 * k) s))) [0..<m]"

section \<open>Least-squares fitting\<close>

text \<open>
  numpy arrays of shape (N,) are lists of reals; a float that may be \<open>nan\<close> is a
  \<open>real option\<close> with \<open>None\<close> for \<open>nan\<close>. \<open>scipy.optimize.leastsq\<close> is not part
  of the repository: it is a parameter, called with the residual function of the
  parameters and the starting point, that returns the fitted parameters and the
  covariance matrix (\<open>None\<close> when scipy cannot compute one) or raises.

  The arithmetic is that of the reals, not of IEEE doubles: where numpy yields \<open>inf\<close>
  or \<open>nan\<close> from a division by zero or a square root of a negative number, the
  definitions below yield HOL's value of the expression. The arrays of one call are
  taken to have the same length, as the docstrings say; numpy's broadcasting and its
  error for unequal shapes are not modelled. The statements proved about \<open>irlsFit\<close>
  depend on none of these values.
\<close>

type_synonym leastsq_fn =
  "(real list \<Rightarrow> real list) \<Rightarrow> real list \<Rightarrow> py_error + (real list \<times> real list list option)"

type_synonym model_fn = "real list \<Rightarrow> real list \<Rightarrow> real list"

record fit_result =
  polyFit :: "real list"
  polyFitErr :: "real option list"
  chiSq :: "real option"

text \<open>
  \<^verbatim>\<open>
  def calculateWeightedReducedChi2(measured, model, weightsMeasured, nData, nParsModel):
      wRes = (measured - model)*weightsMeasured
      return ((wRes*wRes).sum())/(nData-nParsModel)
  \<close>
\<close>

definition calculateWeightedReducedChi2 ::
  "real list \<Rightarrow> real list \<Rightarrow> real list \<Rightarrow> nat \<Rightarrow> nat \<Rightarrow> real" where
  "calculateWeightedReducedChi2 measured model weightsMeasured nData nParsModel =
     (let wRes = map2 (*) (map2 (-) measured model) weightsMeasured
      in sum_list (map2 (*) wRes wRes) / real_of_int (int nData - int nParsModel))"

text \<open>
  \<^verbatim>\<open>
  def fitLeastSq(initialParams, dataX, dataY, function, weightsY=None):
      if weightsY is None:
          weightsY = np.ones(len(dataX))
      def errFunc(p, x, y, weightsY=None):
          if weightsY is None:
              weightsY = np.ones(len(x))
          return (function(p, x) - y)*weightsY
      pFit, pCov, infoDict, errMessage, success = leastsq(errFunc, initialParams,
                                                          args=(dataX, dataY, weightsY), full_output=1,
                                                          epsfcn=0.0001)
      if (len(dataY) > len(initialParams)) and pCov is not None:
          reducedChiSq = calculateWeightedReducedChi2(dataY, function(pFit, dataX), weightsY, len(dataY),
                                                      len(initialParams))
          pCov *= reducedChiSq
      else:
          pCov = np.zeros((len(initialParams), len(initialParams)))
          pCov[:, :] = np.nan
          reducedChiSq = np.nan
      errorVec = []
      for i in range(len(pFit)):
          errorVec.append(np.fabs(pCov[i][i])**0.5)
      return pFit, np.array(errorVec), reducedChiSq
  \<close>
  An entry \<open>pCov[i][i]\<close> outside the matrix raises IndexError.
\<close>

definition np_ones :: "nat \<Rightarrow> real list" where
  "np_ones n = replicate n 1"

definition errFunc :: "model_fn \<Rightarrow> real list \<Rightarrow> real list \<Rightarrow> real list \<Rightarrow> real list \<Rightarrow> real list" where
  "errFunc function x y weightsY p = map2 (*) (map2 (-) (function p x) y) weightsY"

definition diagonal_entry :: "real option list list \<Rightarrow> nat \<Rightarrow> py_error + real option" where
  "diagonal_entry pCov i =
     (if i < length pCov \<and> i < length (pCov ! i) then Inr (pCov ! i ! i)
      else Inl (LibraryError ''IndexError''))"

fun errorVec_loop :: "real option list list \<Rightarrow> nat list \<Rightarrow> py_error + real option list" where
  "errorVec_loop pCov [] = Inr []"
| "errorVec_loop pCov (i # is) =
     (case diagonal_entry pCov i of
        Inl e \<Rightarrow> Inl e
      | Inr c \<Rightarrow>
          (case errorVec_loop pCov is of
             Inl e \<Rightarrow> Inl e
           | Inr errs \<Rightarrow> Inr (map_option (\<lambda>v. sqrt \<bar>v\<bar>) c # errs)))"

definition fitLeastSq ::
  "leastsq_fn \<Rightarrow> real list \<Rightarrow> real list \<Rightarrow> real list \<Rightarrow> model_fn \<Rightarrow> real list option
     \<Rightarrow> py_error + fit_result" where
  "fitLeastSq leastsq initialParams dataX dataY function weightsY_arg =
     (let weightsY = (case weightsY_arg of None \<Rightarrow> np_ones (length dataX) | Some w \<Rightarrow> w)
      in case leastsq (errFunc function dataX dataY weightsY) initialParams of
           Inl e \<Rightarrow> Inl e
         | Inr (pFit, pCov0) \<Rightarrow>
             (let (pCov, reducedChiSq) =
                    (case pCov0 of
                       Some c \<Rightarrow>
                         if length dataY > length initialParams then
                           (let chi = calculateWeightedReducedChi2 dataY (function pFit dataX)
                                        weightsY (length dataY) (length initialParams)
                            in (map (map (\<lambda>v. Some (v * chi))) c, Some chi))
                         else (replicate (length initialParams)
                                 (replicate (length initialParams) None), None)
                     | None \<Rightarrow>
                         (replicate (length initialParams)
                            (replicate (length initialParams) None), None))
              in case errorVec_loop pCov [0..<length pFit] of
                   Inl e \<Rightarrow> Inl e
                 | Inr errorVec \<Rightarrow>
                     Inr \<lparr>polyFit = pFit, polyFitErr = errorVec, chiSq = reducedChiSq\<rparr>))"

section \<open>irlsFit\<close>

text \<open>
  The names the docstring of \<open>irlsFit\<close> lists for \<open>weightType\<close>:
  "One of Cauchy, Anderson, bisquare, box, Welsch, Huber, logistic, or Fair."
\<close>

definition weightTypes :: "string list" where
  "weightTypes =
     [''Cauchy'', ''Anderson'', ''bisquare'', ''box'', ''Welsch'', ''Huber'', ''logistic'', ''Fair'']"

text \<open>
  \<open>np.sinc(x)\<close> is \<open>sin(pi x)/(pi x)\<close>, and 1 at 0.
\<close>

definition np_sinc :: "real \<Rightarrow> real" where
  "np_sinc x = (if x = 0 then 1 else sin (pi * x) / (pi * x))"

text \<open>
  The \<open>if/elif\<close> chain of the loop body, in the source's order; its \<open>else\<close> branch is
  \<^verbatim>\<open>raise RuntimeError(f"Unknown weighting type: {weightType}")\<close>.
\<close>

definition reweight :: "string \<Rightarrow> real list \<Rightarrow> py_error + real list" where
  "reweight weightType resid =
     (if weightType = ''Cauchy'' then
        Inr (map (\<lambda>r. let Z = r / 2.385 in 1 / (1 + Z\<^sup>2)) resid)
      else if weightType = ''Anderson'' then
        Inr (map (\<lambda>r. let Z = r / (1.339 * pi) in if Z < 1 then np_sinc Z else 0) resid)
      else if weightType = ''bisquare'' then
        Inr (map (\<lambda>r. let Z = r / 4.685 in if Z < 1 then 1 - Z\<^sup>2 else 0) resid)
      else if weightType = ''box'' then
        Inr (map (\<lambda>r. if r < 2.795 then 1 else 0) resid)
      else if weightType = ''Welsch'' then
        Inr (map (\<lambda>r. let Z = r / 2.985 in exp (- 1 * Z\<^sup>2)) resid)
      else if weightType = ''Huber'' then
        Inr (map (\<lambda>r. let Z = r / 1.345 in if Z < 1 then 1 else 1 / Z) resid)
      else if weightType = ''logistic'' then
        Inr (map (\<lambda>r. let Z = r / 1.205 in tanh Z / Z) resid)
      else if weightType = ''Fair'' then
        Inr (map (\<lambda>r. let Z = r / 1.4 in 1 / (1 + Z)) resid)
      else Inl (RuntimeError (''Unknown weighting type: '' @ weightType)))"

text \<open>
  \<^verbatim>\<open>
  def irlsFit(initialParams, dataX, dataY, function, weightsY=None, weightType='Cauchy'):
      if not weightsY:
          weightsY = np.ones_like(dataX)
      polyFit, polyFitErr, chiSq = fitLeastSq(initialParams, dataX, dataY, function, weightsY=weightsY)
      for iteration in range(10):
          resid = np.abs(dataY - function(polyFit, dataX)) / np.sqrt(dataY)
          if weightType == 'Cauchy':
              ...
          else:
              raise RuntimeError(f"Unknown weighting type: {weightType}")
          polyFit, polyFitErr, chiSq = fitLeastSq(initialParams, dataX, dataY, function, weightsY=weightsY)
      return polyFit, polyFitErr, chiSq, weightsY
  \<close>
  \<open>weightsY\<close> is documented as a numpy array: \<open>not weightsY\<close> is true for \<open>None\<close> and
  for an empty array, tests the element of a one-element array, and raises ValueError
  for a longer one. \<open>None\<close> is always falsy, so the last branch of
  \<open>initial_weights\<close> is never reached.

  To make the order of the effects observable, every function below returns, beside
  its result or exception, the weights of each \<open>fitLeastSq\<close> call that has returned so
  far, oldest first.
\<close>

definition py_not_array :: "real list option \<Rightarrow> py_error + bool" where
  "py_not_array weightsY =
     (case weightsY of
        None \<Rightarrow> Inr True
      | Some ws \<Rightarrow>
          if length ws = 0 then Inr True
          else if length ws = 1 then Inr (hd ws = 0)
          else Inl (LibraryError
            ''ValueError: The truth value of an array with more than one element is ambiguous''))"

definition residuals :: "model_fn \<Rightarrow> real list \<Rightarrow> real list \<Rightarrow> real list \<Rightarrow> real list" where
  "residuals function dataX dataY pFit =
     map2 (\<lambda>d y. \<bar>d\<bar> / sqrt y) (map2 (-) dataY (function pFit dataX)) dataY"

type_synonym irls_state = "fit_result \<times> real list"

fun irls_loop ::
  "leastsq_fn \<Rightarrow> real list \<Rightarrow> real list \<Rightarrow> real list \<Rightarrow> model_fn \<Rightarrow> string \<Rightarrow> nat
     \<Rightarrow> irls_state \<Rightarrow> real list list \<Rightarrow> (py_error + irls_state) \<times> real list list" where
  "irls_loop leastsq initialParams dataX dataY function weightType 0 st fits = (Inr st, fits)"
| "irls_loop leastsq initialParams dataX dataY function weightType (Suc n) st fits =
     (case reweight weightType (residuals function dataX dataY (polyFit (fst st))) of
        Inl e \<Rightarrow> (Inl e, fits)
      | Inr weightsY \<Rightarrow>
          (case fitLeastSq leastsq initialParams dataX dataY function (Some weightsY) of
             Inl e \<Rightarrow> (Inl e, fits)
           | Inr fit \<Rightarrow>
               irls_loop leastsq initialParams dataX dataY function weightType n
                 (fit, weightsY) (fits @ [weightsY])))"

definition initial_weights :: "real list \<Rightarrow> real list option \<Rightarrow> bool \<Rightarrow> real list" where
  "initial_weights dataX weightsY falsy =
     (if falsy then np_ones (length dataX)
      else (case weightsY of Some ws \<Rightarrow> ws | None \<Rightarrow> np_ones (length dataX)))"

definition irlsFit ::
  "leastsq_fn \<Rightarrow> real list \<Rightarrow> real list \<Rightarrow> real list \<Rightarrow> model_fn \<Rightarrow> real list option \<Rightarrow> string
     \<Rightarrow> (py_error + irls_state) \<times> real list list" where
  "irlsFit leastsq initialParams dataX dataY function weightsY_arg weightType =
     (case py_not_array weightsY_arg of
        Inl e \<Rightarrow> (Inl e, [])
      | Inr falsy \<Rightarrow>
          (let weightsY = initial_weights dataX weightsY_arg falsy
           in case fitLeastSq leastsq initialParams dataX dataY function (Some weightsY) of
                Inl e \<Rightarrow> (Inl e, [])
              | Inr fit \<Rightarrow>
                  irls_loop leastsq initialParams dataX dataY function weightType 10
                    (fit, weightsY) [weightsY]))"

text \<open>
  \<^verbatim>\<open>
  def funcPolynomial(pars, x):
      return poly.polyval(x, [*pars])
  \<close>
  \<open>polyval\<close> evaluates \<open>pars[0] + pars[1]*x + ... \<close> at every point of \<open>x\<close>.
\<close>

definition funcPolynomial :: model_fn where
  "funcPolynomial pars x = map (\<lambda>xi. foldr (\<lambda>c acc. c + xi * acc) pars 0) x"

text \<open>
  A stand-in for \<open>leastsq\<close> used to run the model on concrete data: it returns the
  starting point and no covariance matrix.
\<close>

definition leastsq_no_progress :: leastsq_fn where
  "leastsq_no_progress f p0 = Inr (p0, None)"

section \<open>Mask planes and countMaskedPixels\<close>

text \<open>
  \<open>lsst.afw.image.Mask\<close> is a library type, not part of the repository. What
  \<open>countMaskedPixels\<close> and the tests use of it is modelled here: the mask-plane
  dictionary (plane name to bit number), the dimensions, and the pixel array
  \<open>mask.array[y][x]\<close> of 32-bit words, kept as a store from (row, column) to the word.
  \<open>getPlaneBitMask(name)\<close> returns the word with only that plane's bit set and raises
  for a name that is not in the dictionary.
\<close>

record mask =
  planeDict :: "(string \<times> nat) list"
  width :: nat
  height :: nat
  pixel :: "nat \<Rightarrow> nat \<Rightarrow> 32 word"

definition getPlaneBitMask :: "mask \<Rightarrow> string \<Rightarrow> py_error + 32 word" where
  "getPlaneBitMask m name =
     (case map_of (planeDict m) name of
        None \<Rightarrow> Inl (LibraryError (''InvalidParameterError: invalid mask plane name: '' @ name))
      | Some i \<Rightarrow> Inr (push_bit i 1))"

text \<open>
  \<^verbatim>\<open>
  def countMaskedPixels(maskedIm, maskPlane):
      maskBit = maskedIm.mask.getPlaneBitMask(maskPlane)
      nPix = np.where(np.bitwise_and(maskedIm.mask.array, maskBit))[0].flatten().size
      return nPix
  \<close>
  Only \<open>maskedIm.mask\<close> is read. \<open>np.where\<close> of a 2-d array returns the row indices
  and the column indices of its non-zero entries, in row-major order; the function
  takes the length of the first of the two.
\<close>

definition np_bitwise_and :: "mask \<Rightarrow> 32 word \<Rightarrow> mask" where
  "np_bitwise_and m maskBit = m\<lparr>pixel := \<lambda>y x. pixel m y x AND maskBit\<rparr>"

definition np_where :: "mask \<Rightarrow> nat list \<times> nat list" where
  "np_where m =
     (let idx = concat (map (\<lambda>y. map (\<lambda>x. (y, x)) (filter (\<lambda>x. pixel m y x \<noteq> 0) [0..<width m]))
                         [0..<height m])
      in (map fst idx, map snd idx))"

definition countMaskedPixels :: "mask \<Rightarrow> string \<Rightarrow> py_error + nat" where
  "countMaskedPixels maskedIm maskPlane =
     (case getPlaneBitMask maskedIm maskPlane of
        Inl e \<Rightarrow> Inl e
      | Inr maskBit \<Rightarrow> Inr (length (fst (np_where (np_bitwise_and maskedIm maskBit)))))"

text \<open>
  The tests flag a region with
  \<^verbatim>\<open>
  NODATABIT = mi.mask.getPlaneBitMask("NO_DATA")
  noDataBox = Box2I(Point2I(31, 49), Extent2I(3, 6))
  testImage.mask[noDataBox] |= NODATABIT
  \<close>
  A \<open>Box2I\<close> is a minimum corner and an extent; assigning through a box that does not
  lie within the image raises in afw. The image's origin is (0, 0), so a box with a
  negative corner lies in no image and the coordinates are kept as naturals.
\<close>

record box2i =
  minX :: nat
  minY :: nat
  boxWidth :: nat
  boxHeight :: nat

definition box_contains :: "box2i \<Rightarrow> nat \<Rightarrow> nat \<Rightarrow> bool" where
  "box_contains b x y \<longleftrightarrow>
     minX b \<le> x \<and> x < minX b + boxWidth b \<and> minY b \<le> y \<and> y < minY b + boxHeight b"

definition getArea :: "box2i \<Rightarrow> nat" where
  "getArea b = boxWidth b * boxHeight b"

definition box_in_image :: "mask \<Rightarrow> box2i \<Rightarrow> bool" where
  "box_in_image m b \<longleftrightarrow> minX b + boxWidth b \<le> width m \<and> minY b + boxHeight b \<le> height m"

definition mask_ior_box :: "mask \<Rightarrow> box2i \<Rightarrow> 32 word \<Rightarrow> py_error + mask" where
  "mask_ior_box m b bits =
     (if box_in_image m b
      then Inr (m\<lparr>pixel := \<lambda>y x. if box_contains b x y then pixel m y x OR bits else pixel m y x\<rparr>)
      else Inl (LibraryError ''LengthError: box does not fit in the image''))"

definition flag_region :: "mask \<Rightarrow> box2i \<Rightarrow> string \<Rightarrow> py_error + mask" where
  "flag_region m b plane =
     (case getPlaneBitMask m plane of
        Inl e \<Rightarrow> Inl e
      | Inr bits \<Rightarrow> mask_ior_box m b bits)"

text \<open>
  Modelled from the spec: \<open>FindDefectsTask._getNumGoodPixels\<close> lives in
  \<^verbatim>\<open>defects.py\<close>, which is not among the sources; only its test calls it
  (\<open>_getNumGoodPixels(mi)\<close>, \<open>_getNumGoodPixels(mi, 'BAD')\<close>). The specification
  gives it as \<open>goodPixelCount(grid, maskBitName?)\<close>: "total pixel count minus pixels
  carrying the named bit". The pixels carrying the bit are counted by
  \<open>countMaskedPixels\<close>, which the module of the test imports for that purpose.
\<close>

definition getNumGoodPixels :: "mask \<Rightarrow> string \<Rightarrow> py_error + int" where
  "getNumGoodPixels maskedIm badMaskString =
     (let nPixels = width maskedIm * height maskedIm
      in case countMaskedPixels maskedIm badMaskString of
           Inl e \<Rightarrow> Inl e
         | Inr nBad \<Rightarrow> Inr (int nPixels - int nBad))"

text \<open>
  The pixels of the image that carry bit \<open>i\<close>, as (x, y) positions, and the pixels of
  a box: the sets the statements below count.
\<close>

definition carrying :: "mask \<Rightarrow> nat \<Rightarrow> (nat \<times> nat) set" where
  "carrying m i = {(x, y). x < width m \<and> y < height m \<and> bit (pixel m y x) i}"

definition box_pixels :: "box2i \<Rightarrow> (nat \<times> nat) set" where
  "box_pixels b = {(x, y). box_contains b x y}"

text \<open>
  The default mask-plane dictionary of afw, and an image with no bit set, used to run
  the model on concrete data.
\<close>

definition afw_planes :: "(string \<times> nat) list" where
  "afw_planes = [(''BAD'', 0), (''SAT'', 1), (''INTRP'', 2), (''CR'', 3), (''EDGE'', 4),
     (''DETECTED'', 5), (''DETECTED_NEGATIVE'', 6), (''SUSPECT'', 7), (''NO_DATA'', 8)]"

definition clean_mask :: "nat \<Rightarrow> nat \<Rightarrow> mask" where
  "clean_mask w h = \<lparr>planeDict = afw_planes, width = w, height = h, pixel = \<lambda>y x. 0\<rparr>"

section \<open>Properties of arrangeFlatsByExpId\<close>

lemma map_of_pairs_upto_None: "map_of (pairs_upto s m) m = None"
  by (simp add: pairs_upto_def map_of_eq_None_iff image_iff)

lemma pairs_upto_Suc: "pairs_upto s (Suc m) = pairs_upto s m @ [(m, take 2 (drop (2 * m) s))]"
  by (simp add: pairs_upto_def)

lemma update_last_fresh:
  "map_of d k = None \<Longrightarrow> AList.update k v (d @ [(k, u)]) = d @ [(k, v)]"
  by (induction d) (auto split: if_splits)

lemma setdefault_fresh: "map_of d k = None \<Longrightarrow> setdefault d k = d @ [(k, [])]"
  by (simp add: setdefault_def)

lemma dict_get_last: "map_of d k = None \<Longrightarrow> dict_get (d @ [(k, u)]) k = u"
  by (simp add: dict_get_def map_add_def)

lemma dict_append_last:
  "map_of d k = None \<Longrightarrow> dict_append (d @ [(k, u)]) k x = d @ [(k, u @ [x])]"
  by (simp add: dict_append_def dict_get_last update_last_fresh)

lemma arrange_body_step:
  assumes "j < length s"
  shows "arrange_body s (j, s ! j) (pairs_upto s ((j + 1) div 2)) = pairs_upto s ((j + 2) div 2)"
proof (cases "even j")
  case True
  then obtain m where j: "j = 2 * m" by (auto elim: evenE)
  have none: "map_of (pairs_upto s m) m = None" by (rule map_of_pairs_upto_None)
  have tk: "take 2 (drop (2 * m) s) =
      (if 2 * m + 1 < length s then [s ! (2 * m), s ! (2 * m + 1)] else [s ! (2 * m)])"
    using assms j
    by (auto simp: take_Suc_conv_app_nth numeral_2_eq_2 Cons_nth_drop_Suc [symmetric] take_Suc)
  show ?thesis
    using none
    by (simp add: j arrange_body_def Let_def setdefault_fresh dict_append_last
        pairs_upto_Suc tk)
next
  case False
  then obtain m where j: "j = 2 * m + 1" by (auto elim: oddE)
  show ?thesis
    by (simp add: j arrange_body_def)
qed

lemma fold_arrange_take:
  "j \<le> length s \<Longrightarrow>
     fold (arrange_body s) (enumerate 0 (take j s)) [] = pairs_upto s ((j + 1) div 2)"
proof (induction j)
  case 0
  then show ?case by (simp add: pairs_upto_def)
next
  case (Suc j)
  then have lt: "j < length s" by simp
  have "enumerate 0 (take (Suc j) s) = enumerate 0 (take j s) @ [(j, s ! j)]"
    using lt by (simp add: take_Suc_conv_app_nth enumerate_append_eq min_def)
  then show ?case
    using Suc lt arrange_body_step [OF lt] by simp
qed

text \<open>
  What \<open>arrangeFlatsByExpId\<close> returns, for every input of equal lengths: the sorted
  exposures paired two by two, with \<open>(n + 1) div 2\<close> entries for \<open>n\<close> exposures.
\<close>

lemma arrangeFlatsByExpId_pairs:
  assumes "length exposureList = length exposureIdList"
  shows "arrangeFlatsByExpId exposureList exposureIdList =
           Inr (pairs_upto (sort_key snd (zip exposureList exposureIdList))
                  ((length exposureList + 1) div 2))"
  using assms fold_arrange_take [of "length exposureList" "sort_key snd (zip exposureList exposureIdList)"]
  by (simp add: arrangeFlatsByExpId_def)

text \<open>
  For every odd number of exposures the last entry is a one-element list that holds
  the exposure with the largest id.
\<close>

lemma arrangeFlatsByExpId_odd_last:
  assumes "length exposureList = length exposureIdList" and "odd (length exposureList)"
  shows "\<exists>d. arrangeFlatsByExpId exposureList exposureIdList = Inr d \<and>
             map_of d (length exposureList div 2) =
               Some [last (sort_key snd (zip exposureList exposureIdList))]"
proof -
  let ?s = "sort_key snd (zip exposureList exposureIdList)"
  obtain m where n: "length exposureList = 2 * m + 1"
    using assms(2) by (auto elim: oddE)
  have len: "length ?s = 2 * m + 1"
    using assms(1) n by simp
  have ne: "?s \<noteq> []"
  proof
    assume "?s = []"
    then have "length ?s = 0" by (simp only: list.size)
    with len show False by simp
  qed
  have "take 2 (drop (2 * m) ?s) = [?s ! (2 * m)]"
    using len by (simp add: numeral_2_eq_2 Cons_nth_drop_Suc [symmetric])
  also have "?s ! (2 * m) = last ?s"
    using len ne by (simp add: last_conv_nth)
  finally have tk: "take 2 (drop (2 * m) ?s) = [last ?s]" .
  have "map_of (pairs_upto ?s (Suc m)) m = Some (take 2 (drop (2 * m) ?s))"
    by (simp add: pairs_upto_Suc map_of_pairs_upto_None map_add_def)
  then show ?thesis
    using arrangeFlatsByExpId_pairs [OF assms(1)] n tk by simp
qed

text \<open>
  C9. With three exposures (an odd number) the loop reaches the last index \<open>jPair = 2\<close>,
  creates the entry \<open>kPair = 1\<close>, appends the exposure with the largest id and only then
  meets the IndexError: the returned dictionary holds a one-element list under key 1,
  a partially populated pair that contains the largest-id exposure.
\<close>

theorem arrangeFlatsByExpId_odd_partial_pair:
  "arrangeFlatsByExpId [''expA'', ''expB'', ''expC''] [30, 10, 20] =
     Inr [(0, [(''expB'', 10), (''expC'', 20)]), (1, [(''expA'', 30)])]"
  by (simp add: arrangeFlatsByExpId_def arrange_body_def setdefault_def dict_append_def
      dict_get_def enumerate_eq_zip upt_rec)

section \<open>Properties of irlsFit\<close>

lemma reweight_unknown:
  "weightType \<notin> set weightTypes \<Longrightarrow>
     reweight weightType resid = Inl (RuntimeError (''Unknown weighting type: '' @ weightType))"
  unfolding reweight_def weightTypes_def by auto

lemma reweight_known:
  "weightType \<in> set weightTypes \<Longrightarrow> \<exists>ws. reweight weightType resid = Inr ws"
  unfolding reweight_def weightTypes_def by auto

text \<open>
  With one of the eight names the dispatch never raises: when no fit fails the loop
  runs its ten passes, so eleven fits have been performed when \<open>irlsFit\<close> returns.
\<close>

lemma irls_loop_known:
  assumes "weightType \<in> set weightTypes"
    and "\<And>w. \<exists>fit. fitLeastSq leastsq initialParams dataX dataY function (Some w) = Inr fit"
  shows "\<exists>st'. \<exists>fits'. irls_loop leastsq initialParams dataX dataY function weightType n st fits =
           (Inr st', fits @ fits') \<and> length fits' = n"
proof (induction n arbitrary: st fits)
  case 0
  then show ?case by simp
next
  case (Suc n)
  obtain ws where ws: "reweight weightType (residuals function dataX dataY (polyFit (fst st))) = Inr ws"
    using reweight_known [OF assms(1)] by blast
  obtain fit where fit: "fitLeastSq leastsq initialParams dataX dataY function (Some ws) = Inr fit"
    using assms(2) by blast
  obtain st' fits' where
    "irls_loop leastsq initialParams dataX dataY function weightType n (fit, ws) (fits @ [ws]) =
       (Inr st', (fits @ [ws]) @ fits')" and "length fits' = n"
    using Suc.IH by blast
  then show ?case
    using ws fit by (intro exI [of _ st'] exI [of _ "ws # fits'"]) simp
qed

lemma irlsFit_known_weightType:
  assumes "weightType \<in> set weightTypes"
    and "py_not_array weightsY = Inr falsy"
    and "\<And>w. \<exists>fit. fitLeastSq leastsq initialParams dataX dataY function (Some w) = Inr fit"
  shows "\<exists>st fits. irlsFit leastsq initialParams dataX dataY function weightsY weightType =
           (Inr st, fits) \<and> length fits = 11"
proof -
  let ?w0 = "initial_weights dataX weightsY falsy"
  obtain fit where fit: "fitLeastSq leastsq initialParams dataX dataY function (Some ?w0) = Inr fit"
    using assms(3) by blast
  obtain st' fits' where
    "irls_loop leastsq initialParams dataX dataY function weightType 10 (fit, ?w0) [?w0] =
       (Inr st', [?w0] @ fits')" and "length fits' = 10"
    using irls_loop_known [OF assms(1) assms(3), of 10 "(fit, ?w0)" "[?w0]"] by blast
  then show ?thesis
    using assms(2) fit by (simp add: irlsFit_def)
qed

text \<open>
  The path on which the truth test of \<open>weightsY\<close> does not raise (\<open>weightsY\<close> is
  \<open>None\<close>, the default, or an array of at most one element) and the initial fit
  returns: for a \<open>weightType\<close> that is none of the eight documented names, \<open>irlsFit\<close>
  raises \<open>RuntimeError("Unknown weighting type: ...")\<close> in the first pass of the loop,
  after the initial \<open>fitLeastSq\<close> call has returned: exactly that one fit, with the
  initial weights, has been performed when the exception leaves the function.
\<close>

theorem irlsFit_unknown_weightType:
  assumes "weightType \<notin> set weightTypes"
    and "py_not_array weightsY = Inr falsy"
    and "fitLeastSq leastsq initialParams dataX dataY function
           (Some (initial_weights dataX weightsY falsy)) = Inr fit"
  shows "irlsFit leastsq initialParams dataX dataY function weightsY weightType =
           (Inl (RuntimeError (''Unknown weighting type: '' @ weightType)),
            [initial_weights dataX weightsY falsy])"
  using assms
  by (simp add: irlsFit_def reweight_unknown numeral_eq_Suc)

theorem irlsFit_unknown_weightType_witness:
  "''Tukey'' \<notin> set weightTypes \<and>
   py_not_array None = Inr True \<and>
   irlsFit leastsq_no_progress [1, 2] [1, 2, 3] [2, 4, 6] funcPolynomial None ''Tukey'' =
     (Inl (RuntimeError ''Unknown weighting type: Tukey''), [[1, 1, 1]])"
proof -
  have a: "''Tukey'' \<notin> set weightTypes"
    by (simp add: weightTypes_def)
  have b: "py_not_array None = Inr True"
    by (simp add: py_not_array_def)
  have c: "fitLeastSq leastsq_no_progress [1, 2] [1, 2, 3] [2, 4, 6] funcPolynomial
             (Some (initial_weights [1, 2, 3] None True)) =
           Inr \<lparr>polyFit = [1, 2], polyFitErr = [None, None], chiSq = None\<rparr>"
    by (simp add: fitLeastSq_def leastsq_no_progress_def initial_weights_def np_ones_def
        diagonal_entry_def upt_rec)
  show ?thesis
    using irlsFit_unknown_weightType [OF a b c] a b
    by (simp add: initial_weights_def np_ones_def)
qed

text \<open>
  The docstring gives \<open>weightsY\<close> as a \<open>numpy.array, (N,)\<close>. For such an array with two
  or more elements the first statement, \<open>if not weightsY\<close>, raises ValueError, whatever
  \<open>weightType\<close> and the other arguments are, and no fit has been performed. (The
  sibling functions \<open>fitLeastSq\<close> and \<open>fitBootstrap\<close> test \<open>weightsY is None\<close>.)
\<close>

lemma irlsFit_array_weights:
  assumes "2 \<le> length ws"
  shows "irlsFit leastsq initialParams dataX dataY function (Some ws) weightType =
           (Inl (LibraryError
              ''ValueError: The truth value of an array with more than one element is ambiguous''),
            [])"
proof -
  have "length ws \<noteq> 0" and "length ws \<noteq> 1"
    using assms by auto
  then have "py_not_array (Some ws) =
      Inl (LibraryError
        ''ValueError: The truth value of an array with more than one element is ambiguous'')"
    by (simp add: py_not_array_def)
  then show ?thesis
    by (simp add: irlsFit_def)
qed

text \<open>
  C10. \<open>irlsFit\<close> is to raise RuntimeError for every \<open>weightType\<close> outside the eight
  documented names, after the initial least-squares fit. With the documented kind of
  weights, here the three-element array \<open>[1, 1, 1]\<close>, and the unknown name \<open>Tukey\<close> the
  code does neither: the exception is the ValueError of \<open>if not weightsY\<close>, and it is
  raised before any fit has been performed.
\<close>

theorem irlsFit_array_weights_ValueError:
  "irlsFit leastsq_no_progress [1, 2] [1, 2, 3] [2, 4, 6] funcPolynomial (Some [1, 1, 1]) ''Tukey'' =
     (Inl (LibraryError
        ''ValueError: The truth value of an array with more than one element is ambiguous''),
      [])"
  by (simp add: irlsFit_def py_not_array_def)

section \<open>Properties of countMaskedPixels and the good-pixel count\<close>

lemma length_filter_upt: "length (filter P [0..<n]) = card {x. x < n \<and> P x}"
proof -
  have "distinct (filter P [0..<n])" by simp
  then have "length (filter P [0..<n]) = card (set (filter P [0..<n]))"
    by (rule distinct_card [symmetric])
  also have "set (filter P [0..<n]) = {x. x < n \<and> P x}" by auto
  finally show ?thesis .
qed

lemma count_rows:
  "length (concat (map (\<lambda>y. map (f y) (filter (P y) [0..<w])) [0..<h])) =
     card {(x, y). x < w \<and> y < h \<and> P y x}"
proof (induction h)
  case 0
  then show ?case by simp
next
  case (Suc h)
  have split: "{(x, y). x < w \<and> y < Suc h \<and> P y x} =
        {(x, y). x < w \<and> y < h \<and> P y x} \<union> (\<lambda>x. (x, h)) ` {x. x < w \<and> P h x}"
    by (auto simp: less_Suc_eq)
  have fin1: "finite {(x, y). x < w \<and> y < h \<and> P y x}"
    by (rule finite_subset [of _ "{..<w} \<times> {..<h}"]) auto
  have disj: "{(x, y). x < w \<and> y < h \<and> P y x} \<inter> (\<lambda>x. (x, h)) ` {x. x < w \<and> P h x} = {}"
    by auto
  have "card ((\<lambda>x. (x, h)) ` {x. x < w \<and> P h x}) = card {x. x < w \<and> P h x}"
    by (rule card_image) (simp add: inj_on_def)
  with Suc show ?case
    by (simp add: split card_Un_disjoint [OF fin1 _ disj] length_filter_upt)
qed

lemma and_push_bit_iff: "(v AND push_bit i 1 \<noteq> 0) = bit v i" for v :: "32 word"
  by (simp add: bit_iff_and_push_bit_not_eq_0)

lemma and_push_bit_iff': "(v AND 2 ^ i \<noteq> 0) = bit v i" for v :: "32 word"
  using and_push_bit_iff [of v i] by (simp add: push_bit_eq_mult)

lemma countMaskedPixels_card:
  "map_of (planeDict m) B = Some i \<Longrightarrow> countMaskedPixels m B = Inr (card (carrying m i))"
  by (simp add: countMaskedPixels_def getPlaneBitMask_def np_where_def np_bitwise_and_def
      Let_def count_rows carrying_def and_push_bit_iff')

lemma finite_carrying: "finite (carrying m i)"
  by (rule finite_subset [of _ "{..<width m} \<times> {..<height m}"]) (auto simp: carrying_def)

lemma card_carrying_le: "card (carrying m i) \<le> width m * height m"
proof -
  have "carrying m i \<subseteq> {..<width m} \<times> {..<height m}"
    by (auto simp: carrying_def)
  then have "card (carrying m i) \<le> card ({..<width m} \<times> {..<height m})"
    by (intro card_mono) auto
  then show ?thesis by simp
qed

lemma box_pixels_eq:
  "box_pixels b = {minX b..<minX b + boxWidth b} \<times> {minY b..<minY b + boxHeight b}"
  by (auto simp: box_pixels_def box_contains_def)

lemma card_box_pixels: "card (box_pixels b) = getArea b"
  by (simp add: box_pixels_eq getArea_def)

lemma bit_one_bit: "bit (2 ^ i :: 32 word) j \<longleftrightarrow> i = j \<and> j < 32"
  by (auto simp: bit_exp_iff)

lemma carrying_ior_box:
  assumes "box_in_image m b" and "i < 32"
  shows "mask_ior_box m b (push_bit i 1) = Inr m' \<Longrightarrow>
         carrying m' j = (if i = j then carrying m j \<union> box_pixels b else carrying m j)"
  using assms
  by (auto simp: mask_ior_box_def carrying_def box_pixels_def box_in_image_def
      box_contains_def bit_or_iff bit_one_bit split: if_splits)

lemma getNumGoodPixels_card:
  "map_of (planeDict m) B = Some i \<Longrightarrow>
     getNumGoodPixels m B = Inr (int (width m * height m) - int (card (carrying m i)))"
  by (simp add: getNumGoodPixels_def countMaskedPixels_card)

lemma mask_ior_box_frame:
  "mask_ior_box m b bits = Inr m' \<Longrightarrow>
     planeDict m' = planeDict m \<and> width m' = width m \<and> height m' = height m"
  by (auto simp: mask_ior_box_def split: if_splits)

text \<open>
  C8. Counting distinguishes the named mask bits. For a plane \<open>B\<close> with bit \<open>iB\<close>,
  \<open>countMaskedPixels\<close> returns the number of pixels of the image that carry bit \<open>iB\<close>
  (whatever other bits they carry), and the good-pixel count is the image size minus
  that number. Flagging a box inside the image with a different plane \<open>A\<close> leaves the
  good-pixel count for \<open>B\<close> unchanged; flagging a box none of whose pixels carried
  \<open>iB\<close> (a newly masked region) with \<open>B\<close> itself lowers it by exactly the area of
  the box.
\<close>

theorem goodPixelCount_distinguishes_bits:
  assumes B: "map_of (planeDict m) B = Some iB" "iB < 32"
    and A: "map_of (planeDict m) A = Some iA" "iA < 32" "iA \<noteq> iB"
    and box: "box_in_image m b"
  shows "countMaskedPixels m B = Inr (card (carrying m iB)) \<and>
         getNumGoodPixels m B = Inr (int (width m * height m) - int (card (carrying m iB))) \<and>
         (\<exists>mA. flag_region m b A = Inr mA \<and> getNumGoodPixels mA B = getNumGoodPixels m B) \<and>
         ((\<forall>x y. box_contains b x y \<longrightarrow> \<not> bit (pixel m y x) iB) \<longrightarrow>
          (\<exists>mB. flag_region m b B = Inr mB \<and>
             getNumGoodPixels mB B =
               Inr (int (width m * height m) - int (card (carrying m iB)) - int (getArea b))))"
proof (intro conjI impI)
  show "countMaskedPixels m B = Inr (card (carrying m iB))"
    using B(1) by (rule countMaskedPixels_card)
  show "getNumGoodPixels m B = Inr (int (width m * height m) - int (card (carrying m iB)))"
    using B(1) by (rule getNumGoodPixels_card)
next
  obtain mA where mA: "mask_ior_box m b (push_bit iA 1) = Inr mA"
    using box by (simp add: mask_ior_box_def)
  have frame: "planeDict mA = planeDict m" "width mA = width m" "height mA = height m"
    using mask_ior_box_frame [OF mA] by simp_all
  have "carrying mA iB = carrying m iB"
    using carrying_ior_box [OF box A(2) mA, of iB] A(3) by simp
  then have "getNumGoodPixels mA B = getNumGoodPixels m B"
    using B(1) frame by (simp add: getNumGoodPixels_card)
  moreover have "flag_region m b A = Inr mA"
    using A(1) mA by (simp add: flag_region_def getPlaneBitMask_def)
  ultimately show "\<exists>mA. flag_region m b A = Inr mA \<and> getNumGoodPixels mA B = getNumGoodPixels m B"
    by blast
next
  assume fresh: "\<forall>x y. box_contains b x y \<longrightarrow> \<not> bit (pixel m y x) iB"
  obtain mB where mB: "mask_ior_box m b (push_bit iB 1) = Inr mB"
    using box by (simp add: mask_ior_box_def)
  have frame: "planeDict mB = planeDict m" "width mB = width m" "height mB = height m"
    using mask_ior_box_frame [OF mB] by simp_all
  have un: "carrying mB iB = carrying m iB \<union> box_pixels b"
    using carrying_ior_box [OF box B(2) mB, of iB] by simp
  have disj: "carrying m iB \<inter> box_pixels b = {}"
    using fresh by (auto simp: carrying_def box_pixels_def)
  have "finite (box_pixels b)"
    by (simp add: box_pixels_eq)
  then have "card (carrying mB iB) = card (carrying m iB) + getArea b"
    using un disj by (simp add: card_Un_disjoint finite_carrying card_box_pixels)
  then have "getNumGoodPixels mB B =
      Inr (int (width m * height m) - int (card (carrying m iB)) - int (getArea b))"
    using B(1) frame by (simp add: getNumGoodPixels_card)
  moreover have "flag_region m b B = Inr mB"
    using B(1) mB by (simp add: flag_region_def getPlaneBitMask_def)
  ultimately show "\<exists>mB. flag_region m b B = Inr mB \<and>
      getNumGoodPixels mB B =
        Inr (int (width m * height m) - int (card (carrying m iB)) - int (getArea b))"
    by blast
qed

theorem goodPixelCount_distinguishes_bits_witness:
  "map_of (planeDict (clean_mask 4 3)) ''NO_DATA'' = Some 8 \<and>
   map_of (planeDict (clean_mask 4 3)) ''BAD'' = Some 0 \<and>
   box_in_image (clean_mask 4 3) \<lparr>minX = 1, minY = 1, boxWidth = 2, boxHeight = 2\<rparr> \<and>
   getNumGoodPixels (clean_mask 4 3) ''NO_DATA'' = Inr 12 \<and>
   (\<exists>mA. flag_region (clean_mask 4 3) \<lparr>minX = 1, minY = 1, boxWidth = 2, boxHeight = 2\<rparr> ''BAD''
            = Inr mA \<and> getNumGoodPixels mA ''NO_DATA'' = Inr 12) \<and>
   (\<exists>mB. flag_region (clean_mask 4 3) \<lparr>minX = 1, minY = 1, boxWidth = 2, boxHeight = 2\<rparr> ''NO_DATA''
            = Inr mB \<and> getNumGoodPixels mB ''NO_DATA'' = Inr 8)"
proof -
  let ?m = "clean_mask 4 3"
  let ?b = "\<lparr>minX = 1, minY = 1, boxWidth = 2, boxHeight = 2\<rparr>"
  have B: "map_of (planeDict ?m) ''NO_DATA'' = Some 8"
    by (simp add: clean_mask_def afw_planes_def)
  have A: "map_of (planeDict ?m) ''BAD'' = Some 0"
    by (simp add: clean_mask_def afw_planes_def)
  have box: "box_in_image ?m ?b"
    by (simp add: box_in_image_def clean_mask_def)
  have none: "carrying ?m 8 = {}"
    by (simp add: carrying_def clean_mask_def)
  have fresh: "\<forall>x y. box_contains ?b x y \<longrightarrow> \<not> bit (pixel ?m y x) 8"
    by (simp add: clean_mask_def)
  have dims: "width ?m = 4" "height ?m = 3"
    by (simp_all add: clean_mask_def)
  have good: "getNumGoodPixels ?m ''NO_DATA'' = Inr 12"
    using B by (simp add: getNumGoodPixels_card none dims)
  have n1: "(8::nat) < 32" and n2: "(0::nat) < 32" and n3: "(0::nat) \<noteq> 8"
    by simp_all
  note inst = goodPixelCount_distinguishes_bits [OF B n1 A n2 n3 box]
  have "\<exists>mA. flag_region ?m ?b ''BAD'' = Inr mA \<and>
           getNumGoodPixels mA ''NO_DATA'' = getNumGoodPixels ?m ''NO_DATA''"
    using inst by blast
  then have partA: "\<exists>mA. flag_region ?m ?b ''BAD'' = Inr mA \<and>
           getNumGoodPixels mA ''NO_DATA'' = Inr 12"
    unfolding good .
  have "\<exists>mB. flag_region ?m ?b ''NO_DATA'' = Inr mB \<and>
           getNumGoodPixels mB ''NO_DATA'' =
             Inr (int (width ?m * height ?m) - int (card (carrying ?m 8)) - int (getArea ?b))"
    using inst fresh by blast
  then have partB: "\<exists>mB. flag_region ?m ?b ''NO_DATA'' = Inr mB \<and>
           getNumGoodPixels mB ''NO_DATA'' = Inr 8"
    by (simp add: none dims getArea_def)
  from B A box good partA partB show ?thesis
    by blast
qed

end
